theory Spec2Isabelle
  imports Main
begin

section \<open>The environment shared by the supervisor and the watchdog\<close>

text \<open>
  \<^verbatim>\<open>scheduler_core.py\<close> and \<^verbatim>\<open>watchdog.py\<close> act on the same outside world: the PID file
  \<^verbatim>\<open>scheduler.pid\<close>, the restart history file \<^verbatim>\<open>logs/watchdog_restarts.json\<close>, the
  process table as \<^verbatim>\<open>psutil\<close> shows it, and the wall clock. The world is a record that
  every operation takes and returns.

  \<^item> A \<^verbatim>\<open>datetime\<close> is an integer number of microseconds; \<^verbatim>\<open>timedelta(minutes=m)\<close> is
    \<open>m * 60000000\<close>.
  \<^item> The clock is read with \<^verbatim>\<open>datetime.now()\<close>. The \<open>n\<close>-th reading is \<open>clock w n\<close> and
    \<open>reads w\<close> counts the readings taken so far, so any sequence of readings can be
    described, also one that goes backwards.
  \<^item> The PID file is absent (\<open>None\<close>) or holds a text. \<^verbatim>\<open>int(text.strip())\<close> either
    returns an integer (\<open>PidText n\<close>) or raises \<^verbatim>\<open>ValueError\<close> (\<open>Garbage\<close>).
  \<^item> The history file is absent or unreadable (\<open>None\<close>: \<^verbatim>\<open>load_restart_history\<close> answers
    both with the empty history) or holds what \<^verbatim>\<open>save_restart_history\<close> wrote last.
    The file system is a total store: \<^verbatim>\<open>exists\<close>, \<^verbatim>\<open>read_text\<close>, \<^verbatim>\<open>write_text\<close> and
    \<^verbatim>\<open>unlink\<close> on an existing file do not fail, so the handlers that only log such a
    failure have no branch here.
  \<^item> \<^verbatim>\<open>psutil.Process(pid).cmdline()\<close> has four outcomes: \<^verbatim>\<open>NoSuchProcess\<close>,
    \<^verbatim>\<open>AccessDenied\<close>, some other exception (with its text), or the argument list.
  \<^item> \<open>has_psutil\<close> is \<^verbatim>\<open>HAS_PSUTIL\<close> of \<^verbatim>\<open>scheduler_core.py\<close>: whether its import of
    \<^verbatim>\<open>psutil\<close> succeeded. \<^verbatim>\<open>watchdog.py\<close> imports \<^verbatim>\<open>psutil\<close> unconditionally.
  \<^item> \<open>win32\<close> is \<^verbatim>\<open>sys.platform == 'win32'\<close>; \<open>popen_error\<close> is the text of the exception
    \<^verbatim>\<open>subprocess.Popen\<close> raises, if it raises; \<open>on_stop w pid\<close> is how the process \<open>pid\<close>
    reacts to being stopped.
  \<^item> \<^verbatim>\<open>time.sleep\<close> is where the rest of the system gets to act: the \<open>k\<close>-th sleep
    replaces the PID file and the process table by what \<open>sleep_effect w k\<close> makes of
    them (a freshly spawned scheduler writes its PID file during such a sleep).
  \<^item> \<open>trace\<close> lists, oldest first, what was done to processes: every inspection
    through \<^verbatim>\<open>psutil.Process\<close>, every \<^verbatim>\<open>subprocess.Popen\<close>, every signal.
  \<^item> Log output is not part of the world.
\<close>

type_synonym datetime = int

definition timedelta_minutes :: "int \<Rightarrow> int" where
  "timedelta_minutes m = m * 60000000"

datatype pid_text = Garbage | PidText int

datatype proc_view = NoSuchProcess | AccessDenied | OtherError string | Cmdline "string list"

datatype exn = AttributeError | ValueError string | OtherException string

datatype spawn_mode = DetachedProcessGroup | NewSession

datatype stop_behaviour =
    ExitsOnTerminate | ExitsOnKill | SurvivesKill string | VanishesFirst | TerminateRaises string

datatype event =
    Probe int | Popen spawn_mode | Terminate int | Sigterm int | Kill int

record history =
  restarts :: "datetime list"
  backoff_until :: "datetime option"

record platform =
  win32 :: bool

record world = platform +
  clock :: "nat \<Rightarrow> datetime"
  reads :: nat
  pid_file :: "pid_text option"
  history_file :: "history option"
  procs :: "int \<Rightarrow> proc_view"
  sleep_effect :: "nat \<Rightarrow> pid_text option \<times> (int \<Rightarrow> proc_view)
                       \<Rightarrow> pid_text option \<times> (int \<Rightarrow> proc_view)"
  sleeps :: nat
  popen_error :: "string option"
  on_stop :: "int \<Rightarrow> stop_behaviour"
  has_psutil :: bool
  trace :: "event list"

definition datetime_now :: "world \<Rightarrow> datetime \<times> world" where
  "datetime_now w = (clock w (reads w), w\<lparr>reads := Suc (reads w)\<rparr>)"

definition time_sleep :: "world \<Rightarrow> world" where
  "time_sleep w =
     (let (pf, ps) = sleep_effect w (sleeps w) (pid_file w, procs w)
      in w\<lparr>sleeps := Suc (sleeps w), pid_file := pf, procs := ps\<rparr>)"

definition emit :: "event \<Rightarrow> world \<Rightarrow> world" where
  "emit e w = w\<lparr>trace := trace w @ [e]\<rparr>"

subsection \<open>Strings\<close>

text \<open>
  \<^verbatim>\<open>' '.join(args)\<close>, \<^verbatim>\<open>str.lower\<close> on ASCII letters, the substring test \<^verbatim>\<open>needle in s\<close>
  and \<^verbatim>\<open>str(n)\<close> for an integer.
\<close>

fun join_spaces :: "string list \<Rightarrow> string" where
  "join_spaces [] = []"
| "join_spaces [a] = a"
| "join_spaces (a # b # rest) = a @ '' '' @ join_spaces (b # rest)"

definition lower_char :: "char \<Rightarrow> char" where
  "lower_char c =
     (let n = (of_char c :: nat) in if 65 \<le> n \<and> n \<le> 90 then char_of (n + 32) else c)"

definition lower :: "string \<Rightarrow> string" where
  "lower s = map lower_char s"

fun contains :: "string \<Rightarrow> string \<Rightarrow> bool" where
  "contains needle [] = (needle = [])"
| "contains needle (c # cs) =
     (take (length needle) (c # cs) = needle \<or> contains needle cs)"

definition digit_char :: "nat \<Rightarrow> char" where
  "digit_char d = char_of (48 + d)"

fun str_nat :: "nat \<Rightarrow> string" where
  "str_nat n = (if n < 10 then [digit_char n] else str_nat (n div 10) @ [digit_char (n mod 10)])"

definition str_int :: "int \<Rightarrow> string" where
  "str_int i = (if i < 0 then ''-'' @ str_nat (nat (- i)) else str_nat (nat i))"

section \<open>The watchdog (watchdog.py)\<close>

definition MAX_RESTARTS_IN_WINDOW :: nat where
  "MAX_RESTARTS_IN_WINDOW = 5"

definition RESTART_WINDOW_MINUTES :: int where
  "RESTART_WINDOW_MINUTES = 15"

definition BACKOFF_MINUTES :: int where
  "BACKOFF_MINUTES = 30"

text \<open>
  \<^verbatim>\<open>is_process_running(pid)\<close>: the command line decides; \<^verbatim>\<open>AccessDenied\<close> is taken as
  running; \<^verbatim>\<open>NoSuchProcess\<close> and every other exception as not running.
\<close>

definition is_process_running :: "int \<Rightarrow> world \<Rightarrow> bool \<times> world" where
  "is_process_running pid w =
     (let w1 = emit (Probe pid) w in
      case procs w pid of
        Cmdline args \<Rightarrow> (contains ''scheduler.py'' (lower (join_spaces args)), w1)
      | NoSuchProcess \<Rightarrow> (False, w1)
      | AccessDenied \<Rightarrow> (True, w1)
      | OtherError msg \<Rightarrow> (False, w1))"

definition get_scheduler_pid :: "world \<Rightarrow> int option" where
  "get_scheduler_pid w =
     (case pid_file w of
        None \<Rightarrow> None
      | Some Garbage \<Rightarrow> None
      | Some (PidText n) \<Rightarrow> Some n)"

definition cleanup_stale_pid_file :: "world \<Rightarrow> world" where
  "cleanup_stale_pid_file w = (if pid_file w \<noteq> None then w\<lparr>pid_file := None\<rparr> else w)"

definition load_restart_history :: "world \<Rightarrow> history" where
  "load_restart_history w =
     (case history_file w of
        Some h \<Rightarrow> h
      | None \<Rightarrow> \<lparr>restarts = [], backoff_until = None\<rparr>)"

definition save_restart_history :: "history \<Rightarrow> world \<Rightarrow> world" where
  "save_restart_history h w = w\<lparr>history_file := Some h\<rparr>"

text \<open>
  \<^verbatim>\<open>record_restart(history)\<close> appends the current time, keeps the entries strictly
  younger than the window, and on reaching the threshold sets the backoff, saves and
  answers \<open>False\<close>. The dictionary is changed in place, so the changed history is
  returned with the answer.
\<close>

definition record_restart :: "history \<Rightarrow> world \<Rightarrow> bool \<times> history \<times> world" where
  "record_restart h w =
     (let (now, w1) = datetime_now w;
          appended = restarts h @ [now];
          cutoff = now - timedelta_minutes RESTART_WINDOW_MINUTES;
          h1 = h\<lparr>restarts := filter (\<lambda>dt. dt > cutoff) appended\<rparr>
      in if length (restarts h1) \<ge> MAX_RESTARTS_IN_WINDOW
         then (let h2 = h1\<lparr>backoff_until := Some (now + timedelta_minutes BACKOFF_MINUTES)\<rparr>
               in (False, h2, save_restart_history h2 w1))
         else (True, h1, save_restart_history h1 w1))"

definition is_in_backoff :: "history \<Rightarrow> world \<Rightarrow> bool \<times> history \<times> world" where
  "is_in_backoff h w =
     (case backoff_until h of
        None \<Rightarrow> (False, h, w)
      | Some until \<Rightarrow>
          (let (now, w1) = datetime_now w
           in if now < until then (True, h, w1)
              else (let h1 = h\<lparr>backoff_until := None, restarts := []\<rparr>
                    in (False, h1, save_restart_history h1 w1))))"

text \<open>
  The watchdog's own \<^verbatim>\<open>start_scheduler()\<close>. Everything is inside one \<^verbatim>\<open>try\<close> whose
  handler answers \<open>False\<close>: \<^verbatim>\<open>subprocess.STARTUPINFO\<close> exists on Windows only, and
  \<^verbatim>\<open>Popen\<close> may fail. After the spawn it sleeps once and answers \<open>True\<close> whether or not the
  PID file is there.
\<close>

definition watchdog_start_scheduler :: "world \<Rightarrow> bool \<times> world" where
  "watchdog_start_scheduler w =
     (let history = load_restart_history w;
          (backoff, h1, w1) = is_in_backoff history w
      in if backoff then (False, w1)
         else (let (ok, h2, w2) = record_restart h1 w1
               in if \<not> ok then (False, w2)
                  else if \<not> win32 w2 then (False, w2)
                  else (case popen_error w2 of
                          Some msg \<Rightarrow> (False, w2)
                        | None \<Rightarrow>
                            (let w3 = emit (Popen DetachedProcessGroup) w2;
                                 w4 = time_sleep w3
                             in if pid_file w4 \<noteq> None then (True, w4) else (True, w4)))))"

definition check_and_restart :: "world \<Rightarrow> bool \<times> world" where
  "check_and_restart w =
     (let history = load_restart_history w;
          (backoff, h1, w1) = is_in_backoff history w
      in if backoff then (False, w1)
         else (case get_scheduler_pid w1 of
                 None \<Rightarrow> watchdog_start_scheduler (cleanup_stale_pid_file w1)
               | Some pid \<Rightarrow>
                   (let (running, w2) = is_process_running pid w1
                    in if running then (True, w2)
                       else watchdog_start_scheduler (cleanup_stale_pid_file w2))))"

section \<open>The supervisor (scheduler_core.py)\<close>

definition get_pid :: "world \<Rightarrow> int option" where
  "get_pid w =
     (case pid_file w of
        None \<Rightarrow> None
      | Some Garbage \<Rightarrow> None
      | Some (PidText n) \<Rightarrow> Some n)"

text \<open>
  \<^verbatim>\<open>is_running(pid=None)\<close>. Without \<^verbatim>\<open>psutil\<close> the answer is whether the PID file exists,
  whatever the argument. With it, \<^verbatim>\<open>NoSuchProcess\<close> and \<^verbatim>\<open>AccessDenied\<close> are caught and
  answered \<open>False\<close>; any other exception is not caught and leaves the function (\<open>Inl\<close>).
\<close>

definition is_running :: "int option \<Rightarrow> world \<Rightarrow> (exn + bool) \<times> world" where
  "is_running pid w =
     (if \<not> has_psutil w then (Inr (pid_file w \<noteq> None), w)
      else (case (case pid of None \<Rightarrow> get_pid w | Some p \<Rightarrow> Some p) of
              None \<Rightarrow> (Inr False, w)
            | Some p \<Rightarrow>
                (let w1 = emit (Probe p) w in
                 case procs w p of
                   Cmdline args \<Rightarrow>
                     (Inr (contains ''scheduler.py'' (lower (join_spaces args))), w1)
                 | NoSuchProcess \<Rightarrow> (Inr False, w1)
                 | AccessDenied \<Rightarrow> (Inr False, w1)
                 | OtherError msg \<Rightarrow> (Inl (OtherException msg), w1))))"

text \<open>
  The loop \<^verbatim>\<open>for _ in range(10): time.sleep(0.5); if PID_FILE.exists(): break\<close>, with
  the number of rounds left as first argument.
\<close>

fun wait_for_pid_file :: "nat \<Rightarrow> world \<Rightarrow> world" where
  "wait_for_pid_file 0 w = w"
| "wait_for_pid_file (Suc n) w =
     (let w1 = time_sleep w
      in if pid_file w1 \<noteq> None then w1 else wait_for_pid_file n w1)"

definition exn_text :: "exn \<Rightarrow> string" where
  "exn_text e = (case e of AttributeError \<Rightarrow> ''AttributeError'' | ValueError msg \<Rightarrow> msg
                 | OtherException msg \<Rightarrow> msg)"

text \<open>
  \<^verbatim>\<open>start_scheduler()\<close> in two pieces. \<open>launch\<close> is the part after the already-running
  test: remove a PID file that is there, spawn (inside \<^verbatim>\<open>try\<close>: any exception, also one
  from the last liveness check, becomes the answer \<^verbatim>\<open>(False, "Failed to start: ...", None)\<close>),
  wait for the PID file, and check the PID it holds. The interpreter chosen on Windows
  (\<^verbatim>\<open>pythonw.exe\<close> when present) does not show in the world.
\<close>

definition launch :: "world \<Rightarrow> (exn + bool \<times> string \<times> int option) \<times> world" where
  "launch w =
     (let w1 = (if pid_file w \<noteq> None then w\<lparr>pid_file := None\<rparr> else w)
      in case popen_error w1 of
           Some msg \<Rightarrow> (Inr (False, ''Failed to start: '' @ msg, None), w1)
         | None \<Rightarrow>
             (let w2 = emit (Popen (if win32 w1 then DetachedProcessGroup else NewSession)) w1;
                  w3 = wait_for_pid_file 10 w2
              in case get_pid w3 of
                   None \<Rightarrow> (Inr (False, ''Scheduler failed to start - check logs'', None), w3)
                 | Some new_pid \<Rightarrow>
                     if new_pid = 0
                     then (Inr (False, ''Scheduler failed to start - check logs'', None), w3)
                     else (let (r, w4) = is_running (Some new_pid) w3
                           in case r of
                                Inl e \<Rightarrow> (Inr (False, ''Failed to start: '' @ exn_text e, None), w4)
                              | Inr running \<Rightarrow>
                                  if running
                                  then (Inr (True, ''Scheduler started (PID: '' @ str_int new_pid
                                                   @ '')'', Some new_pid), w4)
                                  else (Inr (False, ''Scheduler failed to start - check logs'',
                                             None), w4))))"

definition start_scheduler :: "world \<Rightarrow> (exn + bool \<times> string \<times> int option) \<times> world" where
  "start_scheduler w =
     (case get_pid w of
        None \<Rightarrow> launch w
      | Some pid \<Rightarrow>
          if pid = 0 then launch w
          else (let (r, w1) = is_running (Some pid) w
                in case r of
                     Inl e \<Rightarrow> (Inl e, w1)
                   | Inr running \<Rightarrow>
                       if running
                       then (Inr (True, ''Scheduler is already running (PID: '' @ str_int pid
                                        @ '')'', Some pid), w1)
                       else launch w1))"

text \<open>
  \<^verbatim>\<open>stop_scheduler()\<close>. The two liveness tests at the top are outside the \<^verbatim>\<open>try\<close>. Inside
  it, the process table is the one \<^verbatim>\<open>is_running\<close> has just seen; what the process does
  when asked to stop is \<open>on_stop w pid\<close>: it exits within the ten seconds, it exits only
  after \<^verbatim>\<open>kill()\<close>, it outlives the kill (\<^verbatim>\<open>wait\<close> raises \<^verbatim>\<open>TimeoutExpired\<close>), it is gone
  before the signal (\<^verbatim>\<open>NoSuchProcess\<close>), or the signal raises something else.
\<close>

definition stop_scheduler :: "world \<Rightarrow> (exn + bool \<times> string) \<times> world" where
  "stop_scheduler w =
     (if \<not> has_psutil w then (Inr (False, ''psutil required for stop operation''), w)
      else case get_pid w of
        None \<Rightarrow> (Inr (True, ''Scheduler is not running (no PID file)''), w)
      | Some pid \<Rightarrow>
          (let (r, w1) = is_running (Some pid) w
           in case r of
                Inl e \<Rightarrow> (Inl e, w1)
              | Inr running \<Rightarrow>
                  if \<not> running
                  then (Inr (True, ''Scheduler is not running (stale PID: '' @ str_int pid
                                   @ '')''), w1\<lparr>pid_file := None\<rparr>)
                  else (let w2 = emit (Probe pid) w1;
                            signal = (if win32 w2 then Terminate pid else Sigterm pid);
                            gone = (\<lambda>v. v\<lparr>procs := (procs v)(pid := NoSuchProcess),
                                           pid_file := None\<rparr>)
                        in case on_stop w2 pid of
                             ExitsOnTerminate \<Rightarrow>
                               (Inr (True, ''Scheduler stopped''), gone (emit signal w2))
                           | ExitsOnKill \<Rightarrow>
                               (Inr (True, ''Scheduler stopped''),
                                gone (emit (Kill pid) (emit signal w2)))
                           | SurvivesKill msg \<Rightarrow>
                               (Inr (False, ''Failed to stop: '' @ msg),
                                emit (Kill pid) (emit signal w2))
                           | VanishesFirst \<Rightarrow>
                               (Inr (True, ''Scheduler already stopped''), gone w2)
                           | TerminateRaises msg \<Rightarrow>
                               (Inr (False, ''Failed to stop: '' @ msg), w2))))"

subsection \<open>The command executor\<close>











section \<open>The scheduler (scheduler.py)\<close>

text \<open>
  A job is the dictionary the configuration file holds, with the keys and the types of
  values that the schema requires: \<^verbatim>\<open>name\<close>, \<^verbatim>\<open>command\<close>, \<^verbatim>\<open>schedule\<close> and its \<^verbatim>\<open>unit\<close> are
  there; every other key may be missing (\<open>None\<close>). \<^verbatim>\<open>if x:\<close> on a string is false for a
  missing and for an empty one, on an integer for a missing one and for zero.
\<close>

record schedule_spec =
  sched_unit :: string
  sched_every :: "int option"
  sched_at :: "string option"
  sched_day :: "string option"
  sched_day_of_month :: "int option"

record job =
  job_name :: string
  command :: string
  enabled :: "bool option"
  schedule :: schedule_spec

definition truthy :: "string option \<Rightarrow> bool" where
  "truthy s = (case s of None \<Rightarrow> False | Some t \<Rightarrow> t \<noteq> [])"

subsection \<open>Validation of the configuration (validate_jobs.py)\<close>

text \<open>
  \<^verbatim>\<open>load_jobs\<close> is \<^verbatim>\<open>validate_config(config_path)["jobs"]\<close>. Reading the file and parsing
  the YAML are not modelled: the configuration is the list of jobs found under \<^verbatim>\<open>jobs\<close>.
  \<open>schema_ok\<close> holds the rules of \<^verbatim>\<open>JOB_SCHEMA\<close> that a job of the record type can break:
  \<^verbatim>\<open>every\<close> at least 1, \<^verbatim>\<open>unit\<close> and \<^verbatim>\<open>day\<close> among the allowed values (compared as they are
  written), \<^verbatim>\<open>at\<close> matching \<^verbatim>\<open>^(\d{2}:\d{2}|:\d{2})$\<close> (with \<^verbatim>\<open>re.match\<close>, whose \<^verbatim>\<open>$\<close> also
  accepts one newline at the end; digits are the ASCII ones), \<^verbatim>\<open>day_of_month\<close> from 1 to
  31. \<^verbatim>\<open>validate_schedule_fields\<close> then lists the fields a unit does not use and the
  required ones that are missing; the fields of a schedule are taken in the order
  \<^verbatim>\<open>every\<close>, \<^verbatim>\<open>unit\<close>, \<^verbatim>\<open>at\<close>, \<^verbatim>\<open>day\<close>, \<^verbatim>\<open>day_of_month\<close>. Either failure raises \<^verbatim>\<open>ValueError\<close>,
  of whose message only the first line, \<^verbatim>\<open>Invalid configuration:\<close>, is kept.
\<close>

definition allowed_units :: "string list" where
  "allowed_units = [''seconds'', ''minutes'', ''hours'', ''days'', ''weeks'', ''months'',
                    ''startup'']"

definition allowed_days :: "string list" where
  "allowed_days = [''monday'', ''tuesday'', ''wednesday'', ''thursday'', ''friday'',
                   ''saturday'', ''sunday'']"

definition char_in :: "nat \<Rightarrow> nat \<Rightarrow> char \<Rightarrow> bool" where
  "char_in lo hi c = (lo \<le> of_char c \<and> (of_char c :: nat) \<le> hi)"

definition is_digit :: "char \<Rightarrow> bool" where
  "is_digit c = char_in 48 57 c"

definition at_regex_ok :: "string \<Rightarrow> bool" where
  "at_regex_ok s =
     (case (if s \<noteq> [] \<and> last s = CHR 0x0A then butlast s else s) of
        [a, b, c, d, e] \<Rightarrow> is_digit a \<and> is_digit b \<and> c = CHR '':'' \<and> is_digit d \<and> is_digit e
      | [c, d, e] \<Rightarrow> c = CHR '':'' \<and> is_digit d \<and> is_digit e
      | _ \<Rightarrow> False)"

definition schema_ok :: "job \<Rightarrow> bool" where
  "schema_ok job =
     ((case sched_every (schedule job) of None \<Rightarrow> True | Some n \<Rightarrow> 1 \<le> n)
      \<and> sched_unit (schedule job) \<in> set allowed_units
      \<and> (case sched_at (schedule job) of None \<Rightarrow> True | Some t \<Rightarrow> at_regex_ok t)
      \<and> (case sched_day (schedule job) of None \<Rightarrow> True | Some d \<Rightarrow> d \<in> set allowed_days)
      \<and> (case sched_day_of_month (schedule job) of
            None \<Rightarrow> True
          | Some d \<Rightarrow> 1 \<le> d \<and> d \<le> 31))"

definition VALID_FIELDS_BY_UNIT :: "string \<Rightarrow> string list option" where
  "VALID_FIELDS_BY_UNIT unit =
     (if unit = ''seconds'' then Some [''every'', ''unit'']
      else if unit = ''minutes'' \<or> unit = ''hours'' \<or> unit = ''days''
        then Some [''every'', ''unit'', ''at'']
      else if unit = ''weeks'' then Some [''every'', ''unit'', ''at'', ''day'']
      else if unit = ''months'' then Some [''unit'', ''at'', ''day_of_month'']
      else if unit = ''startup'' then Some [''unit'']
      else None)"

definition REQUIRED_FIELDS_BY_UNIT :: "string \<Rightarrow> string list" where
  "REQUIRED_FIELDS_BY_UNIT unit =
     (if unit \<in> set [''seconds'', ''minutes'', ''hours'', ''days'', ''weeks''] then [''every'']
      else [])"

definition schedule_fields :: "schedule_spec \<Rightarrow> string list" where
  "schedule_fields sp =
     (case sched_every sp of None \<Rightarrow> [] | Some n \<Rightarrow> [''every'']) @ [''unit'']
     @ (case sched_at sp of None \<Rightarrow> [] | Some t \<Rightarrow> [''at''])
     @ (case sched_day sp of None \<Rightarrow> [] | Some d \<Rightarrow> [''day''])
     @ (case sched_day_of_month sp of None \<Rightarrow> [] | Some d \<Rightarrow> [''day_of_month''])"

definition quoted :: "string \<Rightarrow> string" where
  "quoted s = [CHR 0x27] @ s @ [CHR 0x27]"

definition validate_schedule_fields :: "job list \<Rightarrow> string list" where
  "validate_schedule_fields jobs =
     concat (map (\<lambda>job.
       (let unit = sched_unit (schedule job) in
        case (if unit = [] then None else VALID_FIELDS_BY_UNIT unit) of
          None \<Rightarrow> []
        | Some valid_fields \<Rightarrow>
            map (\<lambda>field. ''Job '' @ quoted (job_name job) @ '': field '' @ quoted field
                          @ '' is not used for '' @ quoted unit @ '' schedules'')
              (filter (\<lambda>field. field \<notin> set valid_fields) (schedule_fields (schedule job)))
            @ map (\<lambda>field. ''Job '' @ quoted (job_name job) @ '': field '' @ quoted field
                            @ '' is required for '' @ quoted unit @ '' schedules'')
                (filter (\<lambda>field. field \<notin> set (schedule_fields (schedule job)))
                   (REQUIRED_FIELDS_BY_UNIT unit)))) jobs)"

definition validate_config :: "job list \<Rightarrow> exn + job list" where
  "validate_config config =
     (if \<not> list_all schema_ok config then Inl (ValueError ''Invalid configuration:'')
      else if validate_schedule_fields config \<noteq> [] then Inl (ValueError ''Invalid configuration:'')
      else Inr config)"

definition load_jobs :: "job list \<Rightarrow> exn + job list" where
  "load_jobs config = validate_config config"

subsection \<open>Scheduling the jobs\<close>

datatype action = RunThreaded string string | RunMonthly string string int

datatype schedule_result = Disabled | Startup | Scheduled

text \<open>
  The \<^verbatim>\<open>schedule\<close> package is not part of the repository, so \<^verbatim>\<open>schedule_job\<close> takes it as
  a parameter: \<open>pkg_every n\<close> is \<^verbatim>\<open>schedule.every(n)\<close>, \<open>pkg_getattr obj name\<close> is
  \<^verbatim>\<open>getattr(obj, name)\<close> (\<open>Inl AttributeError\<close> when there is no such attribute, another
  \<open>Inl\<close> when the property raises), \<open>pkg_at obj time\<close> is \<^verbatim>\<open>obj.at(time)\<close> and
  \<open>pkg_do obj action\<close> is \<^verbatim>\<open>obj.do(...)\<close>, whose result is the job the package adds to
  its list. \<^verbatim>\<open>hasattr\<close> is Python's: \<open>False\<close> on \<^verbatim>\<open>AttributeError\<close>, and any other exception
  passes through.
\<close>

record ('b, 'j) schedule_pkg =
  pkg_every :: "int \<Rightarrow> 'b"
  pkg_getattr :: "'b \<Rightarrow> string \<Rightarrow> exn + 'b"
  pkg_at :: "'b \<Rightarrow> string \<Rightarrow> exn + 'b"
  pkg_do :: "'b \<Rightarrow> action \<Rightarrow> exn + 'j"

definition hasattr :: "('b, 'j) schedule_pkg \<Rightarrow> 'b \<Rightarrow> string \<Rightarrow> exn + bool" where
  "hasattr pkg obj name =
     (case pkg_getattr pkg obj name of
        Inl AttributeError \<Rightarrow> Inr False
      | Inl (ValueError msg) \<Rightarrow> Inl (ValueError msg)
      | Inl (OtherException msg) \<Rightarrow> Inl (OtherException msg)
      | Inr v \<Rightarrow> Inr True)"

definition and_then :: "exn + 'a \<Rightarrow> ('a \<Rightarrow> exn + 'c) \<Rightarrow> exn + 'c" where
  "and_then r f = (case r of Inl e \<Rightarrow> Inl e | Inr v \<Rightarrow> f v)"

text \<open>
  \<^verbatim>\<open>schedule_job(job)\<close>, with the package's list of jobs passed through. Both handlers
  at its end log and re-raise, so an exception of the package is the result \<open>Inl\<close>.
\<close>

definition schedule_job ::
    "('b, 'j) schedule_pkg \<Rightarrow> job \<Rightarrow> 'j list \<Rightarrow> exn + schedule_result \<times> 'j list" where
  "schedule_job pkg job jobs =
     (if \<not> (case enabled job of None \<Rightarrow> True | Some b \<Rightarrow> b) then Inr (Disabled, jobs)
      else
       (let unit = sched_unit (schedule job);
            at = sched_at (schedule job);
            day = sched_day (schedule job);
            day_of_month = sched_day_of_month (schedule job);
            every_val = (case sched_every (schedule job) of None \<Rightarrow> 1 | Some n \<Rightarrow> n);
            with_at = (\<lambda>sched. if truthy at then pkg_at pkg sched (case at of Some t \<Rightarrow> t | None \<Rightarrow> [])
                               else Inr sched)
        in if unit = ''startup'' then Inr (Startup, jobs)
           else if unit = ''months'' then
             (let target_day = (case day_of_month of None \<Rightarrow> 1 | Some d \<Rightarrow> if d = 0 then 1 else d)
              in and_then (pkg_getattr pkg (pkg_every pkg 1) ''day'') (\<lambda>sched.
                 and_then (with_at sched) (\<lambda>sched.
                 and_then (pkg_do pkg sched (RunMonthly (command job) (job_name job) target_day))
                   (\<lambda>j. Inr (Scheduled, jobs @ [j])))))
           else
             and_then (pkg_getattr pkg (pkg_every pkg every_val) unit) (\<lambda>sched.
             and_then
               (if unit = ''weeks'' \<and> truthy day then
                  (let day_lower = lower (case day of Some d \<Rightarrow> d | None \<Rightarrow> [])
                   in and_then (hasattr pkg sched day_lower) (\<lambda>known.
                        if known
                        then and_then (pkg_getattr pkg sched day_lower) with_at
                        else with_at sched))
                else if truthy at then
                  and_then (hasattr pkg sched ''at'') (\<lambda>has_at.
                    if has_at then with_at sched else Inr sched)
                else Inr sched)
               (\<lambda>sched.
             and_then (pkg_do pkg sched (RunThreaded (command job) (job_name job)))
               (\<lambda>j. Inr (Scheduled, jobs @ [j]))))))"

text \<open>
  The start of the program, from \<^verbatim>\<open>load_jobs\<close> to the point where the endless loop
  \<^verbatim>\<open>while True: schedule.run_pending(); time.sleep(1)\<close> begins. \<open>schedule_all\<close> is the loop
  \<^verbatim>\<open>for job in jobs\<close>, which has no handler of its own; the handler around the whole
  start, \<^verbatim>\<open>load_jobs\<close> included, logs ``Fatal error'' and re-raises, which ends the process
  (\<open>Inl\<close>). Otherwise the program enters its loop with the jobs the package has
  registered and one thread started for each startup job.
\<close>

fun schedule_all ::
    "('b, 'j) schedule_pkg \<Rightarrow> job list \<Rightarrow> job list \<Rightarrow> 'j list \<Rightarrow> exn + job list \<times> 'j list" where
  "schedule_all pkg [] startup_jobs jobs = Inr (startup_jobs, jobs)"
| "schedule_all pkg (job # rest) startup_jobs jobs =
     (case schedule_job pkg job jobs of
        Inl e \<Rightarrow> Inl e
      | Inr (result, jobs1) \<Rightarrow>
          schedule_all pkg rest
            (if result = Startup then startup_jobs @ [job] else startup_jobs) jobs1)"

record 'j loop_state =
  registered :: "'j list"
  started_threads :: "(string \<times> string) list"

definition main :: "('b, 'j) schedule_pkg \<Rightarrow> job list \<Rightarrow> exn + 'j loop_state" where
  "main pkg config =
     (case load_jobs config of
        Inl e \<Rightarrow> Inl e
      | Inr jobs \<Rightarrow>
          (case schedule_all pkg jobs [] [] of
             Inl e \<Rightarrow> Inl e
           | Inr (startup_jobs, registered_jobs) \<Rightarrow>
               Inr \<lparr>registered = registered_jobs,
                    started_threads = map (\<lambda>j. (command j, job_name j)) startup_jobs\<rparr>))"

subsection \<open>An instance of the package\<close>

text \<open>
  One package to run \<^verbatim>\<open>schedule_job\<close> on, written after the \<^verbatim>\<open>Job\<close> class of the
  \<^verbatim>\<open>schedule\<close> package for the jobs that pass \<^verbatim>\<open>validate_config\<close> (so with an interval of
  at least 1; a smaller one is refused here). The attributes of a job object are the
  five units, their singular forms and the seven weekdays, which give back the job (the
  last two groups raise \<^verbatim>\<open>IntervalError\<close> unless the interval is 1), and its methods and
  data attributes, which give back something that is not a job. \<^verbatim>\<open>at\<close> is refused for a
  unit other than days, hours and minutes when no weekday is set, and for a time that
  does not have the format of the unit: \<^verbatim>\<open>HH:MM\<close> or \<^verbatim>\<open>HH:MM:SS\<close> with an hour up to 23 for
  days and weekdays, \<^verbatim>\<open>MM:SS\<close> or \<^verbatim>\<open>:MM\<close> for hours, \<^verbatim>\<open>:SS\<close> for minutes.
\<close>

record trigger =
  interval :: int
  every_unit :: "string option"
  start_day :: "string option"
  at_time :: "string option"

datatype builder = Job trigger | Plain string

record timer =
  trig :: trigger
  todo :: action

definition plural_units :: "string list" where
  "plural_units = [''seconds'', ''minutes'', ''hours'', ''days'', ''weeks'']"

definition singular_units :: "(string \<times> string) list" where
  "singular_units = [(''second'', ''seconds''), (''minute'', ''minutes''), (''hour'', ''hours''),
                     (''day'', ''days''), (''week'', ''weeks'')]"

definition weekdays :: "string list" where
  "weekdays = [''monday'', ''tuesday'', ''wednesday'', ''thursday'', ''friday'', ''saturday'',
               ''sunday'']"

definition job_attributes :: "string list" where
  "job_attributes = [''at'', ''do'', ''to'', ''tag'', ''until'', ''run'', ''should_run'',
                     ''interval'', ''latest'', ''job_func'', ''unit'', ''at_time'',
                     ''at_time_zone'', ''last_run'', ''next_run'', ''start_day'',
                     ''cancel_after'', ''tags'', ''scheduler'']"

definition lib_getattr :: "builder \<Rightarrow> string \<Rightarrow> exn + builder" where
  "lib_getattr obj name =
     (case obj of
        Plain p \<Rightarrow> Inl AttributeError
      | Job t \<Rightarrow>
          if name \<in> set plural_units then Inr (Job (t\<lparr>every_unit := Some name\<rparr>))
          else (case map_of singular_units name of
                  Some u \<Rightarrow>
                    if interval t \<noteq> 1 then Inl (OtherException ''IntervalError'')
                    else Inr (Job (t\<lparr>every_unit := Some u\<rparr>))
                | None \<Rightarrow>
                    if name \<in> set weekdays
                    then (if interval t \<noteq> 1 then Inl (OtherException ''IntervalError'')
                          else Inr (Job (t\<lparr>start_day := Some name, every_unit := Some ''weeks''\<rparr>)))
                    else if name \<in> set job_attributes then Inr (Plain name)
                    else Inl AttributeError))"

definition daily_time_ok :: "string \<Rightarrow> bool" where
  "daily_time_ok s =
     (let hm = (\<lambda>h1 h2 c m1 m2. char_in 48 50 h1 \<and> is_digit h2 \<and> c = CHR '':''
                   \<and> char_in 48 53 m1 \<and> is_digit m2
                   \<and> (of_char h1 - 48) * 10 + (of_char h2 - 48) \<le> (23 :: nat))
      in case s of
           [h1, h2, c, m1, m2] \<Rightarrow> hm h1 h2 c m1 m2
         | [h1, h2, c, m1, m2, c2, s1, s2] \<Rightarrow>
             hm h1 h2 c m1 m2 \<and> c2 = CHR '':'' \<and> char_in 48 53 s1 \<and> is_digit s2
         | _ \<Rightarrow> False)"

definition hourly_time_ok :: "string \<Rightarrow> bool" where
  "hourly_time_ok s =
     (case s of
        [c, s1, s2] \<Rightarrow> c = CHR '':'' \<and> char_in 48 53 s1 \<and> is_digit s2
      | [m1, m2, c, s1, s2] \<Rightarrow>
          char_in 48 53 m1 \<and> is_digit m2 \<and> c = CHR '':'' \<and> char_in 48 53 s1 \<and> is_digit s2
      | _ \<Rightarrow> False)"

definition minutely_time_ok :: "string \<Rightarrow> bool" where
  "minutely_time_ok s =
     (case s of
        [c, s1, s2] \<Rightarrow> c = CHR '':'' \<and> char_in 48 53 s1 \<and> is_digit s2
      | _ \<Rightarrow> False)"

definition lib_at :: "builder \<Rightarrow> string \<Rightarrow> exn + builder" where
  "lib_at obj time =
     (case obj of
        Plain p \<Rightarrow> Inl AttributeError
      | Job t \<Rightarrow>
          if every_unit t \<notin> {Some ''days'', Some ''hours'', Some ''minutes''} \<and> start_day t = None
          then Inl (OtherException ''ScheduleValueError'')
          else if (every_unit t = Some ''days'' \<or> start_day t \<noteq> None) \<and> \<not> daily_time_ok time
          then Inl (OtherException ''ScheduleValueError'')
          else if every_unit t = Some ''hours'' \<and> start_day t = None \<and> \<not> hourly_time_ok time
          then Inl (OtherException ''ScheduleValueError'')
          else if every_unit t = Some ''minutes'' \<and> start_day t = None
                  \<and> \<not> minutely_time_ok time
          then Inl (OtherException ''ScheduleValueError'')
          else Inr (Job (t\<lparr>at_time := Some time\<rparr>)))"

definition lib_do :: "builder \<Rightarrow> action \<Rightarrow> exn + timer" where
  "lib_do obj a =
     (case obj of
        Plain p \<Rightarrow> Inl AttributeError
      | Job t \<Rightarrow>
          if every_unit t = None \<or> interval t < 1
          then Inl (OtherException ''ScheduleValueError'')
          else Inr \<lparr>trig = t, todo = a\<rparr>)"

definition schedule_lib :: "(builder, timer) schedule_pkg" where
  "schedule_lib =
     \<lparr>pkg_every = (\<lambda>n. Job \<lparr>interval = n, every_unit = None, start_day = None, at_time = None\<rparr>),
      pkg_getattr = lib_getattr,
      pkg_at = lib_at,
      pkg_do = lib_do\<rparr>"

section \<open>Notions used in the statements\<close>

text \<open>
  \<open>history_wf w\<close>: the restarts in the history file are in ascending order and none is
  later than the next reading of the clock. \<open>recent now h\<close>: every restart of \<open>h\<close> is
  less than the window older than \<open>now\<close>, and a backoff that is set ends the backoff
  duration after \<open>now\<close>.
\<close>

definition history_wf :: "world \<Rightarrow> bool" where
  "history_wf w =
     (case history_file w of
        None \<Rightarrow> True
      | Some h \<Rightarrow> sorted (restarts h) \<and> (\<forall>t \<in> set (restarts h). t \<le> clock w (reads w)))"

definition recent :: "datetime \<Rightarrow> history \<Rightarrow> bool" where
  "recent now h =
     ((\<forall>t \<in> set (restarts h). now - timedelta_minutes RESTART_WINDOW_MINUTES < t) \<and>
      (case backoff_until h of
         None \<Rightarrow> True
       | Some until \<Rightarrow> until = now + timedelta_minutes BACKOFF_MINUTES \<and> now < until))"

definition is_signal :: "event \<Rightarrow> bool" where
  "is_signal e = (case e of Terminate p \<Rightarrow> True | Sigterm p \<Rightarrow> True | Kill p \<Rightarrow> True
                  | Probe p \<Rightarrow> False | Popen m \<Rightarrow> False)"


section \<open>Concrete worlds and jobs\<close>

text \<open>
  \<open>base_world\<close>: a Windows machine with \<^verbatim>\<open>psutil\<close>, no PID file, no history file and no
  scheduler process; the clock starts at minute 100 and advances one second per reading;
  nothing happens during a sleep. The other worlds differ from it as their names say.
  PID 4242 is the scheduler where there is one.
\<close>

definition base_world :: world where
  "base_world =
     \<lparr>win32 = True,
      clock = (\<lambda>n. 6000000000 + int n * 1000000),
      reads = 0,
      pid_file = None,
      history_file = None,
      procs = (\<lambda>p. NoSuchProcess),
      sleep_effect = (\<lambda>k files. files),
      sleeps = 0,
      popen_error = None,
      on_stop = (\<lambda>p. ExitsOnTerminate),
      has_psutil = True,
      trace = []\<rparr>"

definition four_restarts :: history where
  "four_restarts =
     \<lparr>restarts = [5400000000, 5500000000, 5600000000, 5700000000], backoff_until = None\<rparr>"

definition five_restarts :: history where
  "five_restarts =
     \<lparr>restarts = [5400000000, 5500000000, 5600000000, 5700000000, 6000000000],
      backoff_until = Some 7800000000\<rparr>"

definition thrashing_world :: world where
  "thrashing_world = base_world\<lparr>history_file := Some four_restarts\<rparr>"

definition backoff_world :: world where
  "backoff_world = base_world\<lparr>reads := 1, history_file := Some five_restarts\<rparr>"

definition scheduler_cmdline :: "string list" where
  "scheduler_cmdline = [''C:/Python/pythonw.exe'', ''C:/Jobs/Scheduler.py'']"

definition running_world :: world where
  "running_world =
     base_world\<lparr>pid_file := Some (PidText 4242),
                history_file := Some \<lparr>restarts = [600000000], backoff_until = None\<rparr>,
                procs := (\<lambda>p. if p = 4242 then Cmdline scheduler_cmdline else NoSuchProcess)\<rparr>"

definition stale_world :: world where
  "stale_world = base_world\<lparr>pid_file := Some (PidText 4242)\<rparr>"


definition denied_world :: world where
  "denied_world =
     base_world\<lparr>pid_file := Some (PidText 4242),
                procs := (\<lambda>p. if p = 4242 then AccessDenied else NoSuchProcess)\<rparr>"

definition no_psutil_world :: world where
  "no_psutil_world = base_world\<lparr>has_psutil := False\<rparr>"


definition plain_job :: "string \<Rightarrow> string \<Rightarrow> string option \<Rightarrow> string option \<Rightarrow> job" where
  "plain_job name unit time day =
     \<lparr>job_name = name, command = ''python scripts/'' @ name @ ''.py'', enabled = None,
      schedule = \<lparr>sched_unit = unit, sched_every = Some 1, sched_at = time, sched_day = day,
                  sched_day_of_month = None\<rparr>\<rparr>"


text \<open>
  Worlds for a check after the backoff has ended at minute 81 2/3: one where the PID
  file names a process that is gone, one where PID 4242 is the scheduler.
\<close>

definition expired_history :: history where
  "expired_history =
     \<lparr>restarts = [3000000000, 3100000000], backoff_until = Some 4900000000\<rparr>"

definition expired_stale_world :: world where
  "expired_stale_world =
     base_world\<lparr>pid_file := Some (PidText 4242), history_file := Some expired_history\<rparr>"

definition expired_running_world :: world where
  "expired_running_world =
     base_world\<lparr>pid_file := Some (PidText 4242),
                history_file := Some expired_history,
                procs := (\<lambda>p. if p = 4242 then Cmdline scheduler_cmdline else NoSuchProcess)\<rparr>"

section \<open>Properties of the watchdog\<close>

subsection \<open>Auxiliary facts\<close>

lemma is_in_backoff_trace: "trace (snd (snd (is_in_backoff h w))) = trace w"
  by (simp add: is_in_backoff_def datetime_now_def save_restart_history_def Let_def split: option.splits)

lemma cleanup_fields [simp]:
  "history_file (cleanup_stale_pid_file w) = history_file w"
  "clock (cleanup_stale_pid_file w) = clock w"
  "reads (cleanup_stale_pid_file w) = reads w"
  "trace (cleanup_stale_pid_file w) = trace w"
  by (simp_all add: cleanup_stale_pid_file_def)

lemma emit_fields [simp]:
  "history_file (emit e w) = history_file w"
  "clock (emit e w) = clock w"
  "reads (emit e w) = reads w"
  "pid_file (emit e w) = pid_file w"
  "procs (emit e w) = procs w"
  "trace (emit e w) = trace w @ [e]"
  by (simp_all add: emit_def)

lemma history_wf_cong:
  "history_file v = history_file w \<Longrightarrow> clock v = clock w \<Longrightarrow> reads v = reads w
   \<Longrightarrow> history_wf v = history_wf w"
  by (simp add: history_wf_def split: option.splits)

lemma record_restart_saved:
  assumes "sorted (restarts h)" "\<forall>t \<in> set (restarts h). t \<le> clock w (reads w)"
    "backoff_until h = None" "record_restart h w = (ok, h', w')"
  shows "w' = w\<lparr>reads := Suc (reads w), history_file := Some h'\<rparr>
       \<and> sorted (restarts h') \<and> (\<forall>t \<in> set (restarts h'). t \<le> clock w (reads w))
       \<and> recent (clock w (reads w)) h'"
  using assms
  by (auto simp: record_restart_def datetime_now_def save_restart_history_def Let_def recent_def
      sorted_append sorted_wrt_filter timedelta_minutes_def BACKOFF_MINUTES_def split: if_splits)

lemma watchdog_start_history:
  assumes wf: "history_wf w"
    and nb: "backoff_until (load_restart_history w) = None"
  shows "\<exists>h'. history_file (snd (watchdog_start_scheduler w)) = Some h'
       \<and> reads (snd (watchdog_start_scheduler w)) = Suc (reads w)
       \<and> clock (snd (watchdog_start_scheduler w)) = clock w
       \<and> sorted (restarts h') \<and> (\<forall>t \<in> set (restarts h'). t \<le> clock w (reads w))
       \<and> recent (clock w (reads w)) h'"
proof -
  let ?h = "load_restart_history w"
  have s: "sorted (restarts ?h)" and b: "\<forall>t \<in> set (restarts ?h). t \<le> clock w (reads w)"
    using wf by (auto simp: history_wf_def load_restart_history_def split: option.splits)
  obtain ok h' w' where r: "record_restart ?h w = (ok, h', w')"
    by (cases "record_restart ?h w") auto
  note fact = record_restart_saved [OF s b nb r]
  have bk: "is_in_backoff ?h w = (False, ?h, w)"
    using nb by (simp add: is_in_backoff_def)
  show ?thesis
    using fact
    by (simp add: watchdog_start_scheduler_def bk r Let_def emit_def time_sleep_def
        split: option.splits prod.splits)
qed

lemma probe_phase_history:
  assumes wf: "history_wf w"
    and nb: "backoff_until (load_restart_history w) = None"
  defines "w' \<equiv> snd (case get_scheduler_pid w of
                 None \<Rightarrow> watchdog_start_scheduler (cleanup_stale_pid_file w)
               | Some pid \<Rightarrow>
                   (let (running, w2) = is_process_running pid w
                    in if running then (True, w2)
                       else watchdog_start_scheduler (cleanup_stale_pid_file w2)))"
  shows "clock w' = clock w \<and>
         ((history_file w' = history_file w \<and> reads w' = reads w) \<or>
          (\<exists>h'. history_file w' = Some h' \<and> reads w' = Suc (reads w)
              \<and> sorted (restarts h') \<and> (\<forall>t \<in> set (restarts h'). t \<le> clock w (reads w))
              \<and> recent (clock w (reads w)) h'))"
proof -
  have keep: "history_wf v \<and> backoff_until (load_restart_history v) = None
              \<and> clock v = clock w \<and> reads v = reads w"
    if "v = cleanup_stale_pid_file w \<or> v = cleanup_stale_pid_file (emit e w)" for v e
    using that wf nb history_wf_cong [of v w]
    by (auto simp: load_restart_history_def)
  have start: "clock (snd (watchdog_start_scheduler v)) = clock w \<and>
      (\<exists>h'. history_file (snd (watchdog_start_scheduler v)) = Some h'
          \<and> reads (snd (watchdog_start_scheduler v)) = Suc (reads w)
          \<and> sorted (restarts h') \<and> (\<forall>t \<in> set (restarts h'). t \<le> clock w (reads w))
          \<and> recent (clock w (reads w)) h')"
    if "v = cleanup_stale_pid_file w \<or> v = cleanup_stale_pid_file (emit e w)" for v e
    using watchdog_start_history [of v] keep [OF that] by auto
  show ?thesis
  proof (cases "get_scheduler_pid w")
    case None
    then show ?thesis
      unfolding w'_def using start [of "cleanup_stale_pid_file w"] by simp
  next
    case (Some pid)
    show ?thesis
    proof (cases "fst (is_process_running pid w)")
      case True
      then show ?thesis
        unfolding w'_def using Some
        by (auto simp: is_process_running_def emit_def Let_def split: proc_view.splits prod.splits)
    next
      case False
      have e: "snd (is_process_running pid w) = emit (Probe pid) w"
        by (simp add: is_process_running_def Let_def split: proc_view.splits)
      show ?thesis
        unfolding w'_def
        using Some False e start [of "cleanup_stale_pid_file (emit (Probe pid) w)" "Probe pid"]
        by (simp add: split_beta Let_def)
    qed
  qed
qed

lemma history_step:
  assumes mono: "mono (clock w)"
    and v: "clock v = clock w" "reads w \<le> reads v"
    and step: "clock w' = clock v \<and>
         ((history_file w' = history_file v \<and> reads w' = reads v) \<or>
          (\<exists>h'. history_file w' = Some h' \<and> reads w' = Suc (reads v)
              \<and> sorted (restarts h') \<and> (\<forall>t \<in> set (restarts h'). t \<le> clock v (reads v))
              \<and> recent (clock v (reads v)) h'))"
    and wfv: "history_wf v"
    and rv: "history_file v = history_file w \<or>
             (\<exists>h. history_file v = Some h \<and> reads w < reads v \<and> recent (clock w (reads v - 1)) h)"
  shows "history_wf w' \<and> clock w' = clock w \<and> reads w \<le> reads w' \<and>
         (history_file w' = history_file w \<or>
          (\<exists>h'. history_file w' = Some h' \<and> reads w < reads w'
               \<and> recent (clock w (reads w' - 1)) h'))"
proof -
  have le: "clock w (reads v) \<le> clock w (Suc (reads v))"
    using mono by (simp add: monoD)
  from step have c: "clock w' = clock w" using v by simp
  from step consider
      (same) "history_file w' = history_file v" "reads w' = reads v"
    | (saved) h' where "history_file w' = Some h'" "reads w' = Suc (reads v)"
        "sorted (restarts h')" "\<forall>t \<in> set (restarts h'). t \<le> clock v (reads v)"
        "recent (clock v (reads v)) h'"
    by blast
  then show ?thesis
  proof cases
    case same
    then have "history_wf w'"
      using wfv c v by (simp add: history_wf_cong [of w' v])
    then show ?thesis using same c v rv by auto
  next
    case saved
    then have "history_wf w'"
      using c v le by (fastforce simp: history_wf_def)
    then show ?thesis using saved c v by auto
  qed
qed

lemma scheduler_cmdline_matches:
  "contains ''scheduler.py'' (lower (join_spaces scheduler_cmdline))"
  by code_simp


subsection \<open>Thrashing and backoff\<close>

text \<open>
  Claim C1. Let \<open>now\<close> be the clock reading \<^verbatim>\<open>record_restart\<close> takes and \<open>pruned\<close> the
  restarts left after appending \<open>now\<close> and dropping the entries outside the 15-minute
  window. When \<open>pruned\<close> has at least five entries, \<^verbatim>\<open>record_restart\<close> answers \<open>False\<close>,
  sets \<open>backoff_until\<close> to \<open>now\<close> plus 30 minutes (which is later than \<open>now\<close>) and writes
  that history to the file; the watchdog's \<^verbatim>\<open>start_scheduler\<close> of that cycle answers
  \<open>False\<close> with the trace as it found it, so nothing was spawned; and a later check
  that finds this history and reads a clock value before \<open>backoff_until\<close> answers
  \<open>False\<close> and changes nothing but the count of clock readings: no inspection of a
  process, no spawn.
\<close>

theorem thrashing_enters_backoff:
  assumes now: "now = clock w (reads w)"
    and pruned: "pruned = filter (\<lambda>dt. dt > now - timedelta_minutes RESTART_WINDOW_MINUTES)
                            (restarts h @ [now])"
    and h': "h' = h\<lparr>restarts := pruned,
                     backoff_until := Some (now + timedelta_minutes BACKOFF_MINUTES)\<rparr>"
    and thrash: "MAX_RESTARTS_IN_WINDOW \<le> length pruned"
  shows "record_restart h w = (False, h', w\<lparr>reads := Suc (reads w), history_file := Some h'\<rparr>)
       \<and> now < now + timedelta_minutes BACKOFF_MINUTES
       \<and> (is_in_backoff (load_restart_history w0) w0 = (False, h, w) \<longrightarrow>
            watchdog_start_scheduler w0
              = (False, w\<lparr>reads := Suc (reads w), history_file := Some h'\<rparr>)
            \<and> trace (snd (watchdog_start_scheduler w0)) = trace w0)
       \<and> (history_file v = Some h' \<and> clock v (reads v) < now + timedelta_minutes BACKOFF_MINUTES \<longrightarrow>
            check_and_restart v = (False, v\<lparr>reads := Suc (reads v)\<rparr>))"
proof (intro conjI impI)
  show rec: "record_restart h w
               = (False, h', w\<lparr>reads := Suc (reads w), history_file := Some h'\<rparr>)"
    using thrash
    by (simp add: record_restart_def datetime_now_def save_restart_history_def Let_def
        now pruned h')
  show "now < now + timedelta_minutes BACKOFF_MINUTES"
    by (simp add: timedelta_minutes_def BACKOFF_MINUTES_def)
  {
    assume cycle: "is_in_backoff (load_restart_history w0) w0 = (False, h, w)"
    show start: "watchdog_start_scheduler w0
                   = (False, w\<lparr>reads := Suc (reads w), history_file := Some h'\<rparr>)"
      by (simp add: watchdog_start_scheduler_def cycle rec)
    have "trace w = trace w0"
      using is_in_backoff_trace [of "load_restart_history w0" w0] by (simp add: cycle)
    then show "trace (snd (watchdog_start_scheduler w0)) = trace w0"
      by (simp add: start)
  }
  assume later: "history_file v = Some h' \<and> clock v (reads v) < now + timedelta_minutes BACKOFF_MINUTES"
  then show "check_and_restart v = (False, v\<lparr>reads := Suc (reads v)\<rparr>)"
    by (simp add: check_and_restart_def load_restart_history_def is_in_backoff_def
        datetime_now_def h')
qed

text \<open>
  Claim C1, at a concrete input: four restarts in the last ten minutes, a fifth now; the
  next check one second later is inside the backoff.
\<close>

theorem thrashing_enters_backoff_witness:
  "is_in_backoff (load_restart_history thrashing_world) thrashing_world
     = (False, four_restarts, thrashing_world)
   \<and> MAX_RESTARTS_IN_WINDOW \<le> length (restarts five_restarts)
   \<and> history_file backoff_world = Some five_restarts
   \<and> clock backoff_world (reads backoff_world) < 7800000000
   \<and> fst (watchdog_start_scheduler thrashing_world) = False
   \<and> history_file (snd (watchdog_start_scheduler thrashing_world)) = Some five_restarts
   \<and> trace (snd (watchdog_start_scheduler thrashing_world)) = trace thrashing_world
   \<and> fst (check_and_restart backoff_world) = False
   \<and> trace (snd (check_and_restart backoff_world)) = trace backoff_world"
proof -
  have now: "6000000000 = clock thrashing_world (reads thrashing_world)"
    by (simp add: thrashing_world_def base_world_def)
  have pruned: "restarts five_restarts
      = filter (\<lambda>dt. dt > 6000000000 - timedelta_minutes RESTART_WINDOW_MINUTES)
          (restarts four_restarts @ [6000000000])"
    by (simp add: four_restarts_def five_restarts_def timedelta_minutes_def
        RESTART_WINDOW_MINUTES_def)
  have h': "five_restarts = four_restarts\<lparr>restarts := restarts five_restarts,
              backoff_until := Some (6000000000 + timedelta_minutes BACKOFF_MINUTES)\<rparr>"
    by (simp add: four_restarts_def five_restarts_def timedelta_minutes_def BACKOFF_MINUTES_def)
  have thrash: "MAX_RESTARTS_IN_WINDOW \<le> length (restarts five_restarts)"
    by (simp add: five_restarts_def MAX_RESTARTS_IN_WINDOW_def)
  have cyc: "is_in_backoff (load_restart_history thrashing_world) thrashing_world
     = (False, four_restarts, thrashing_world)"
    by (simp add: is_in_backoff_def load_restart_history_def thrashing_world_def four_restarts_def)
  have l1: "history_file backoff_world = Some five_restarts"
    by (simp add: backoff_world_def)
  have l2: "clock backoff_world (reads backoff_world) < 6000000000 + timedelta_minutes BACKOFF_MINUTES"
    by (simp add: backoff_world_def base_world_def timedelta_minutes_def BACKOFF_MINUTES_def)
  note res = thrashing_enters_backoff [OF now pruned h' thrash, of thrashing_world backoff_world]
  have l2': "clock backoff_world (reads backoff_world) < 7800000000"
    using l2 by (simp add: timedelta_minutes_def BACKOFF_MINUTES_def)
  show ?thesis
    using res cyc thrash l1 l2 l2' by simp
qed

subsection \<open>The shape of the persisted history\<close>

text \<open>
  Claim C4 as stated fails: a check that finds the scheduler running returns without
  touching the history, so a restart recorded at minute 10 is still in the file after a
  check at minute 100, 75 minutes past the window.
\<close>

theorem check_leaves_old_restarts:
  "fst (check_and_restart running_world) = True
   \<and> history_file (snd (check_and_restart running_world))
       = Some \<lparr>restarts = [600000000], backoff_until = None\<rparr>
   \<and> 600000000 < clock (snd (check_and_restart running_world))
             (reads (snd (check_and_restart running_world)))
           - timedelta_minutes RESTART_WINDOW_MINUTES"
  by (simp add: check_and_restart_def load_restart_history_def is_in_backoff_def
      get_scheduler_pid_def is_process_running_def running_world_def base_world_def
      scheduler_cmdline_matches emit_def timedelta_minutes_def RESTART_WINDOW_MINUTES_def)

text \<open>
  Claim C4, amended. With a clock that does not go backwards and a history file whose
  restarts are ascending and not in the future, a check leaves the history file in that
  state. It prunes only when it writes: either the file is as the check found it, or
  every restart in it is less than 15 minutes older than the last clock reading the
  check took, and a backoff that is set in it is that reading plus 30 minutes, later
  than the reading.
\<close>

theorem check_history_invariant:
  assumes mono: "mono (clock w)" and wf: "history_wf w"
  defines "w' \<equiv> snd (check_and_restart w)"
  shows "history_wf w' \<and> clock w' = clock w \<and> reads w \<le> reads w' \<and>
         (history_file w' = history_file w \<or>
          (\<exists>h'. history_file w' = Some h' \<and> reads w < reads w'
               \<and> recent (clock w (reads w' - 1)) h'))"
proof (cases "backoff_until (load_restart_history w)")
  case None
  then have bk: "is_in_backoff (load_restart_history w) w = (False, load_restart_history w, w)"
    by (simp add: is_in_backoff_def)
  have eq: "w' = snd (case get_scheduler_pid w of
                 None \<Rightarrow> watchdog_start_scheduler (cleanup_stale_pid_file w)
               | Some pid \<Rightarrow>
                   (let (running, w2) = is_process_running pid w
                    in if running then (True, w2)
                       else watchdog_start_scheduler (cleanup_stale_pid_file w2)))"
    by (simp add: w'_def check_and_restart_def bk)
  have step: "clock w' = clock w \<and>
         ((history_file w' = history_file w \<and> reads w' = reads w) \<or>
          (\<exists>h'. history_file w' = Some h' \<and> reads w' = Suc (reads w)
              \<and> sorted (restarts h') \<and> (\<forall>t \<in> set (restarts h'). t \<le> clock w (reads w))
              \<and> recent (clock w (reads w)) h'))"
    unfolding eq by (rule probe_phase_history [OF wf None])
  show ?thesis
    using history_step [OF mono refl order_refl step wf] by simp
next
  case (Some until)
  then obtain h where h: "history_file w = Some h" "backoff_until h = Some until"
    by (auto simp: load_restart_history_def split: option.splits)
  have le: "clock w (reads w) \<le> clock w (Suc (reads w))"
    using mono by (simp add: monoD)
  show ?thesis
  proof (cases "clock w (reads w) < until")
    case True
    then have "check_and_restart w = (False, w\<lparr>reads := Suc (reads w)\<rparr>)"
      using h by (simp add: check_and_restart_def load_restart_history_def is_in_backoff_def
          datetime_now_def)
    then show ?thesis
      unfolding w'_def using wf h le by (auto simp: history_wf_def)
  next
    case False
    define v where "v = w\<lparr>reads := Suc (reads w),
                            history_file := Some \<lparr>restarts = [], backoff_until = None\<rparr>\<rparr>"
    have bk: "is_in_backoff (load_restart_history w) w
                = (False, \<lparr>restarts = [], backoff_until = None\<rparr>, v)"
      using h False by (cases h) (simp add: load_restart_history_def is_in_backoff_def
          datetime_now_def save_restart_history_def v_def Let_def)
    have wfv: "history_wf v" and nbv: "backoff_until (load_restart_history v) = None"
      by (simp_all add: v_def history_wf_def load_restart_history_def)
    have eq: "w' = snd (case get_scheduler_pid v of
                 None \<Rightarrow> watchdog_start_scheduler (cleanup_stale_pid_file v)
               | Some pid \<Rightarrow>
                   (let (running, w2) = is_process_running pid v
                    in if running then (True, w2)
                       else watchdog_start_scheduler (cleanup_stale_pid_file w2)))"
      by (simp add: w'_def check_and_restart_def bk)
    have step: "clock w' = clock v \<and>
         ((history_file w' = history_file v \<and> reads w' = reads v) \<or>
          (\<exists>h'. history_file w' = Some h' \<and> reads w' = Suc (reads v)
              \<and> sorted (restarts h') \<and> (\<forall>t \<in> set (restarts h'). t \<le> clock v (reads v))
              \<and> recent (clock v (reads v)) h'))"
      unfolding eq by (rule probe_phase_history [OF wfv nbv])
    have cv: "clock v = clock w" and rv: "reads w \<le> reads v"
      by (simp_all add: v_def)
    have hv: "history_file v = history_file w \<or>
             (\<exists>h. history_file v = Some h \<and> reads w < reads v \<and> recent (clock w (reads v - 1)) h)"
      by (simp add: v_def recent_def)
    show ?thesis
      using history_step [OF mono cv rv step wfv hv] by simp
  qed
qed

text \<open>
  Claim C4, amended, at a concrete input: the check that records the fifth restart.
\<close>

theorem check_history_invariant_witness:
  "mono (clock thrashing_world) \<and> history_wf thrashing_world
   \<and> history_wf (snd (check_and_restart thrashing_world))
   \<and> clock (snd (check_and_restart thrashing_world)) = clock thrashing_world
   \<and> reads thrashing_world \<le> reads (snd (check_and_restart thrashing_world))"
proof -
  have m: "mono (clock thrashing_world)"
    by (simp add: thrashing_world_def base_world_def mono_def)
  have wf: "history_wf thrashing_world"
    by (simp add: history_wf_def thrashing_world_def base_world_def four_restarts_def)
  show ?thesis
    using check_history_invariant [OF m wf] m wf by simp
qed

subsection \<open>Expiry of the backoff\<close>

lemma first_restart_recorded:
  "record_restart \<lparr>restarts = [], backoff_until = None\<rparr> u
     = (True, \<lparr>restarts = [clock u (reads u)], backoff_until = None\<rparr>,
        u\<lparr>reads := Suc (reads u),
          history_file := Some \<lparr>restarts = [clock u (reads u)], backoff_until = None\<rparr>\<rparr>)"
  by (simp add: record_restart_def datetime_now_def save_restart_history_def Let_def
      timedelta_minutes_def RESTART_WINDOW_MINUTES_def MAX_RESTARTS_IN_WINDOW_def)

lemma cleanup_is_unlink: "cleanup_stale_pid_file w = w\<lparr>pid_file := None\<rparr>"
  by (cases w) (simp add: cleanup_stale_pid_file_def)

lemma restart_on_cleared_history:
  assumes "history_file u = Some \<lparr>restarts = [], backoff_until = None\<rparr>"
  shows "watchdog_start_scheduler u
     = (if win32 u \<and> popen_error u = None
        then (True, time_sleep (emit (Popen DetachedProcessGroup)
                (u\<lparr>reads := Suc (reads u),
                   history_file := Some \<lparr>restarts = [clock u (reads u)], backoff_until = None\<rparr>\<rparr>)))
        else (False, u\<lparr>reads := Suc (reads u),
                history_file := Some \<lparr>restarts = [clock u (reads u)], backoff_until = None\<rparr>\<rparr>))"
  using assms
  by (cases "popen_error u")
     (simp_all add: watchdog_start_scheduler_def load_restart_history_def is_in_backoff_def
        first_restart_recorded Let_def)

text \<open>
  Claim C5. Let the history file hold a \<open>backoff_until\<close> that is not later than the clock
  reading of the check. \<^verbatim>\<open>is_in_backoff\<close> then answers \<open>False\<close> and writes the history with
  no restarts and no backoff (the world \<open>v\<close>), and the check goes on as a check without
  a backoff does:
  \<^item> when the PID file names a process that is the scheduler, or one that may not be
    inspected, the check inspects it, answers \<open>True\<close> and changes nothing else;
  \<^item> when there is no PID file, or none that can be read, the check inspects nothing,
    removes the PID file, records the restart in the cleared history (the world \<open>r\<close>),
    spawns the scheduler and answers \<open>True\<close>; where the spawn is not possible (not on
    Windows, or \<^verbatim>\<open>Popen\<close> fails) it answers \<open>False\<close> after recording the restart;
  \<^item> when the PID file names a process that is gone, cannot be inspected for another
    reason, or is another program, the check inspects it and then does the same.
\<close>

theorem expired_backoff_resumes:
  assumes stored: "history_file w = Some h"
    and set: "backoff_until h = Some until"
    and past: "until \<le> clock w (reads w)"
    and cleared: "v = w\<lparr>reads := Suc (reads w),
                        history_file := Some \<lparr>restarts = [], backoff_until = None\<rparr>\<rparr>"
    and recorded: "r = w\<lparr>reads := Suc (Suc (reads w)),
                         pid_file := None,
                         history_file := Some \<lparr>restarts = [clock w (Suc (reads w))],
                                               backoff_until = None\<rparr>\<rparr>"
  shows "is_in_backoff (load_restart_history w) w
           = (False, \<lparr>restarts = [], backoff_until = None\<rparr>, v)
       \<and> (pid_file w = Some (PidText pid)
            \<and> (procs w pid = AccessDenied
                \<or> procs w pid = Cmdline args
                  \<and> contains ''scheduler.py'' (lower (join_spaces args))) \<longrightarrow>
          check_and_restart w = (True, emit (Probe pid) v))
       \<and> (pid_file w = None \<or> pid_file w = Some Garbage \<longrightarrow>
          check_and_restart w
            = (if win32 w \<and> popen_error w = None
               then (True, time_sleep (emit (Popen DetachedProcessGroup) r))
               else (False, r)))
       \<and> (pid_file w = Some (PidText pid)
            \<and> (procs w pid = NoSuchProcess \<or> procs w pid = OtherError msg
                \<or> procs w pid = Cmdline args
                  \<and> \<not> contains ''scheduler.py'' (lower (join_spaces args))) \<longrightarrow>
          check_and_restart w
            = (if win32 w \<and> popen_error w = None
               then (True, time_sleep (emit (Popen DetachedProcessGroup) (emit (Probe pid) r)))
               else (False, emit (Probe pid) r)))"
proof (intro conjI impI)
  show bk: "is_in_backoff (load_restart_history w) w
              = (False, \<lparr>restarts = [], backoff_until = None\<rparr>, v)"
    using stored set past
    by (cases h) (simp add: load_restart_history_def is_in_backoff_def datetime_now_def
        save_restart_history_def cleared Let_def)
  {
    assume a: "pid_file w = Some (PidText pid)
            \<and> (procs w pid = AccessDenied
                \<or> procs w pid = Cmdline args
                  \<and> contains ''scheduler.py'' (lower (join_spaces args)))"
    then have "is_process_running pid v = (True, emit (Probe pid) v)"
      by (auto simp: is_process_running_def cleared)
    then show "check_and_restart w = (True, emit (Probe pid) v)"
      using a by (simp add: check_and_restart_def bk get_scheduler_pid_def cleared)
  }
  {
    assume a: "pid_file w = None \<or> pid_file w = Some Garbage"
    then have g: "get_scheduler_pid v = None"
      by (auto simp: get_scheduler_pid_def cleared)
    have c: "history_file (v\<lparr>pid_file := None\<rparr>)
               = Some \<lparr>restarts = [], backoff_until = None\<rparr>"
      by (simp add: cleared)
    have eq: "check_and_restart w = watchdog_start_scheduler (v\<lparr>pid_file := None\<rparr>)"
      by (simp add: check_and_restart_def bk g cleanup_is_unlink)
    show "check_and_restart w
            = (if win32 w \<and> popen_error w = None
               then (True, time_sleep (emit (Popen DetachedProcessGroup) r))
               else (False, r))"
      unfolding eq restart_on_cleared_history [OF c]
      by (cases w) (simp add: cleared recorded)
  }
  assume a: "pid_file w = Some (PidText pid)
            \<and> (procs w pid = NoSuchProcess \<or> procs w pid = OtherError msg
                \<or> procs w pid = Cmdline args
                  \<and> \<not> contains ''scheduler.py'' (lower (join_spaces args)))"
  then have p: "is_process_running pid v = (False, emit (Probe pid) v)"
    by (auto simp: is_process_running_def cleared)
  have g: "get_scheduler_pid v = Some pid"
    using a by (simp add: get_scheduler_pid_def cleared)
  have c: "history_file ((emit (Probe pid) v)\<lparr>pid_file := None\<rparr>)
             = Some \<lparr>restarts = [], backoff_until = None\<rparr>"
    by (simp add: cleared)
  have eq: "check_and_restart w
          = watchdog_start_scheduler ((emit (Probe pid) v)\<lparr>pid_file := None\<rparr>)"
    by (simp add: check_and_restart_def bk g p cleanup_is_unlink)
  show "check_and_restart w
            = (if win32 w \<and> popen_error w = None
               then (True, time_sleep (emit (Popen DetachedProcessGroup) (emit (Probe pid) r)))
               else (False, emit (Probe pid) r))"
    unfolding eq restart_on_cleared_history [OF c]
    by (cases w) (simp add: cleared recorded emit_def)
qed

text \<open>
  The theorem at two worlds whose backoff ended before minute 100: with a stale PID
  file the check inspects PID 4242, removes the PID file, records the restart of minute
  100 and one second and spawns the scheduler; with the scheduler running as PID 4242
  it inspects the process and leaves the cleared history and the PID file as they are.
\<close>

theorem expired_backoff_resumes_witness:
  "history_file expired_stale_world = Some expired_history
   \<and> backoff_until expired_history = Some 4900000000
   \<and> 4900000000 \<le> clock expired_stale_world (reads expired_stale_world)
   \<and> pid_file expired_stale_world = Some (PidText 4242)
   \<and> procs expired_stale_world 4242 = NoSuchProcess
   \<and> fst (check_and_restart expired_stale_world) = True
   \<and> history_file (snd (check_and_restart expired_stale_world))
       = Some \<lparr>restarts = [6001000000], backoff_until = None\<rparr>
   \<and> pid_file (snd (check_and_restart expired_stale_world)) = None
   \<and> trace (snd (check_and_restart expired_stale_world))
       = [Probe 4242, Popen DetachedProcessGroup]
   \<and> procs expired_running_world 4242 = Cmdline scheduler_cmdline
   \<and> fst (check_and_restart expired_running_world) = True
   \<and> history_file (snd (check_and_restart expired_running_world))
       = Some \<lparr>restarts = [], backoff_until = None\<rparr>
   \<and> pid_file (snd (check_and_restart expired_running_world)) = Some (PidText 4242)
   \<and> trace (snd (check_and_restart expired_running_world)) = [Probe 4242]"
proof -
  have s1: "history_file expired_stale_world = Some expired_history"
    and s2: "history_file expired_running_world = Some expired_history"
    and b: "backoff_until expired_history = Some 4900000000"
    and p1: "4900000000 \<le> clock expired_stale_world (reads expired_stale_world)"
    and p2: "4900000000 \<le> clock expired_running_world (reads expired_running_world)"
    and f1: "pid_file expired_stale_world = Some (PidText 4242)"
    and f2: "pid_file expired_running_world = Some (PidText 4242)"
    and q1: "procs expired_stale_world 4242 = NoSuchProcess"
    and q2: "procs expired_running_world 4242 = Cmdline scheduler_cmdline"
    by (simp_all add: expired_stale_world_def expired_running_world_def expired_history_def
        base_world_def)
  have env: "win32 expired_stale_world \<and> popen_error expired_stale_world = None"
    by (simp add: expired_stale_world_def base_world_def)
  note stale = expired_backoff_resumes [OF s1 b p1 refl refl, of 4242 scheduler_cmdline]
  note running = expired_backoff_resumes [OF s2 b p2 refl refl, of 4242 scheduler_cmdline]
  have a: "check_and_restart expired_stale_world
      = (True, time_sleep (emit (Popen DetachedProcessGroup) (emit (Probe 4242)
           (expired_stale_world\<lparr>reads := Suc (Suc (reads expired_stale_world)),
               pid_file := None,
               history_file := Some \<lparr>restarts = [clock expired_stale_world
                                                     (Suc (reads expired_stale_world))],
                                     backoff_until = None\<rparr>\<rparr>))))"
    using stale f1 q1 env by simp
  have c: "check_and_restart expired_running_world
      = (True, emit (Probe 4242)
           (expired_running_world\<lparr>reads := Suc (reads expired_running_world),
               history_file := Some \<lparr>restarts = [], backoff_until = None\<rparr>\<rparr>))"
    using running f2 q2 scheduler_cmdline_matches by simp
  show ?thesis
    using s1 b p1 f1 q1 q2
    by (simp add: a c) (simp add: time_sleep_def emit_def expired_stale_world_def
        expired_running_world_def base_world_def)
qed

section \<open>Properties of the supervisor\<close>

subsection \<open>Auxiliary facts\<close>

lemma time_sleep_fields [simp]:
  "trace (time_sleep w) = trace w"
  "sleeps (time_sleep w) = Suc (sleeps w)"
  "has_psutil (time_sleep w) = has_psutil w"
  "sleep_effect (time_sleep w) = sleep_effect w"
  by (simp_all add: time_sleep_def split_beta)








lemma str_int_4242: "str_int 4242 = ''4242''"
  by code_simp


subsection \<open>Starting\<close>




text \<open>
  The watchdog has a \<^verbatim>\<open>start_scheduler\<close> of its own, which sleeps once and answers \<open>True\<close>
  whether or not the PID file has appeared.
\<close>

lemma watchdog_start_without_pid_file:
  "fst (watchdog_start_scheduler base_world) = True
   \<and> pid_file (snd (watchdog_start_scheduler base_world)) = None"
  by (simp add: watchdog_start_scheduler_def load_restart_history_def is_in_backoff_def
      record_restart_def datetime_now_def save_restart_history_def emit_def time_sleep_def
      Let_def timedelta_minutes_def RESTART_WINDOW_MINUTES_def MAX_RESTARTS_IN_WINDOW_def
      base_world_def)

subsection \<open>Stopping\<close>

text \<open>
  Claim C8 as stated fails: without \<^verbatim>\<open>psutil\<close> the first statement of \<^verbatim>\<open>stop_scheduler\<close>
  answers failure, also when there is no PID file.
\<close>

theorem stop_without_psutil_fails:
  "pid_file no_psutil_world = None
   \<and> fst (stop_scheduler no_psutil_world) = Inr (False, ''psutil required for stop operation'')"
  by (simp add: stop_scheduler_def no_psutil_world_def base_world_def)

text \<open>
  Claim C8, amended. With \<^verbatim>\<open>psutil\<close> available: when there is no PID file,
  \<^verbatim>\<open>stop_scheduler\<close> answers success with the message that the scheduler is not running
  and leaves the world as it is, so no signal is sent; when the PID file holds a PID that
  fails the liveness test, it removes the PID file and answers success, having inspected
  the process and sent no signal.
\<close>

theorem stop_when_not_running:
  assumes "has_psutil w"
  shows "(pid_file w = None \<longrightarrow>
            stop_scheduler w = (Inr (True, ''Scheduler is not running (no PID file)''), w))
       \<and> (pid_file w = Some (PidText pid) \<and> fst (is_running (Some pid) w) = Inr False \<longrightarrow>
            stop_scheduler w
              = (Inr (True, ''Scheduler is not running (stale PID: '' @ str_int pid @ '')''),
                 w\<lparr>pid_file := None, trace := trace w @ [Probe pid]\<rparr>)
            \<and> filter is_signal (trace (snd (stop_scheduler w))) = filter is_signal (trace w))"
proof (intro conjI impI)
  assume "pid_file w = None"
  then show "stop_scheduler w = (Inr (True, ''Scheduler is not running (no PID file)''), w)"
    using assms by (simp add: stop_scheduler_def get_pid_def)
next
  assume a: "pid_file w = Some (PidText pid) \<and> fst (is_running (Some pid) w) = Inr False"
  have s: "snd (is_running (Some pid) w) = emit (Probe pid) w"
    using assms by (simp add: is_running_def Let_def split: proc_view.splits)
  have eq: "stop_scheduler w
              = (Inr (True, ''Scheduler is not running (stale PID: '' @ str_int pid @ '')''),
                 w\<lparr>pid_file := None, trace := trace w @ [Probe pid]\<rparr>)"
    using assms a s by (simp add: stop_scheduler_def get_pid_def split_beta emit_def)
  show "stop_scheduler w
              = (Inr (True, ''Scheduler is not running (stale PID: '' @ str_int pid @ '')''),
                 w\<lparr>pid_file := None, trace := trace w @ [Probe pid]\<rparr>)"
    by (rule eq)
  show "filter is_signal (trace (snd (stop_scheduler w))) = filter is_signal (trace w)"
    by (simp add: eq is_signal_def)
qed

text \<open>
  Claim C8, amended, at concrete inputs: no PID file, and a PID file naming a process
  that does not exist.
\<close>

theorem stop_when_not_running_witness:
  "has_psutil base_world \<and> pid_file base_world = None
   \<and> stop_scheduler base_world
       = (Inr (True, ''Scheduler is not running (no PID file)''), base_world)
   \<and> has_psutil stale_world \<and> pid_file stale_world = Some (PidText 4242)
   \<and> fst (is_running (Some 4242) stale_world) = Inr False
   \<and> fst (stop_scheduler stale_world)
       = Inr (True, ''Scheduler is not running (stale PID: 4242)'')
   \<and> pid_file (snd (stop_scheduler stale_world)) = None
   \<and> trace (snd (stop_scheduler stale_world)) = [Probe 4242]"
proof -
  have h: "has_psutil base_world" and n: "pid_file base_world = None"
    by (simp_all add: base_world_def)
  have hs: "has_psutil stale_world" and ps: "pid_file stale_world = Some (PidText 4242)"
    and ts: "trace stale_world = []"
    by (simp_all add: stale_world_def base_world_def)
  have rs: "fst (is_running (Some 4242) stale_world) = Inr False"
    by (simp add: is_running_def stale_world_def base_world_def)
  have a: "stop_scheduler base_world
       = (Inr (True, ''Scheduler is not running (no PID file)''), base_world)"
    using stop_when_not_running [OF h, of 0] n by simp
  have b: "stop_scheduler stale_world
              = (Inr (True, ''Scheduler is not running (stale PID: '' @ str_int 4242 @ '')''),
                 stale_world\<lparr>pid_file := None, trace := trace stale_world @ [Probe 4242]\<rparr>)"
    using stop_when_not_running [OF hs, of 4242] ps rs by simp
  show ?thesis
    using h n hs ps rs a by (simp add: b str_int_4242 ts)
qed

subsection \<open>The liveness tests\<close>




text \<open>
  Claim C10. For a PID whose inspection raises \<^verbatim>\<open>AccessDenied\<close> (an inspection there is
  only with \<^verbatim>\<open>psutil\<close>), \<^verbatim>\<open>is_running\<close> answers \<open>False\<close> and the watchdog's
  \<^verbatim>\<open>is_process_running\<close> answers \<open>True\<close>: the two tests differ on that PID.
\<close>

theorem liveness_checks_differ_on_access_denied:
  assumes "has_psutil w" and "procs w pid = AccessDenied"
  shows "fst (is_running (Some pid) w) = Inr False
       \<and> fst (is_process_running pid w) = True
       \<and> fst (is_running (Some pid) w) \<noteq> Inr (fst (is_process_running pid w))"
  using assms by (simp add: is_running_def is_process_running_def Let_def)

text \<open>
  Claim C10, at a concrete input: PID 4242 may not be inspected.
\<close>

theorem liveness_checks_differ_on_access_denied_witness:
  "has_psutil denied_world
   \<and> procs denied_world 4242 = AccessDenied
   \<and> fst (is_running (Some 4242) denied_world) = Inr False
   \<and> fst (is_process_running 4242 denied_world) = True"
proof -
  have h: "has_psutil denied_world" and p: "procs denied_world 4242 = AccessDenied"
    by (simp_all add: denied_world_def base_world_def)
  show ?thesis
    using liveness_checks_differ_on_access_denied [OF h p] h p by simp
qed

subsection \<open>Without psutil\<close>

text \<open>
  What the three operations do without \<^verbatim>\<open>psutil\<close>, in every world: \<^verbatim>\<open>is_running\<close> answers
  whether the PID file exists and inspects nothing; \<^verbatim>\<open>stop_scheduler\<close> answers failure
  and changes nothing; \<^verbatim>\<open>start_scheduler\<close>, with a PID file that holds a non-zero PID,
  answers that the scheduler is already running and changes nothing.
\<close>

lemma is_running_no_psutil:
  "\<not> has_psutil w \<Longrightarrow> is_running pid w = (Inr (pid_file w \<noteq> None), w)"
  by (simp add: is_running_def)

lemma stop_scheduler_no_psutil:
  "\<not> has_psutil w \<Longrightarrow>
     stop_scheduler w = (Inr (False, ''psutil required for stop operation''), w)"
  by (simp add: stop_scheduler_def)

lemma start_scheduler_no_psutil:
  assumes "\<not> has_psutil w" and "pid_file w = Some (PidText pid)" and "pid \<noteq> 0"
  shows "start_scheduler w
           = (Inr (True, ''Scheduler is already running (PID: '' @ str_int pid @ '')'',
                   Some pid), w)"
  using assms by (simp add: start_scheduler_def get_pid_def is_running_def)

section \<open>Properties of the command executor\<close>





section \<open>Properties of the scheduler's start\<close>

subsection \<open>An error in one job\<close>

lemma schedule_all_append:
  "schedule_all pkg (xs @ ys) startup_jobs jobs =
     (case schedule_all pkg xs startup_jobs jobs of
        Inl e \<Rightarrow> Inl e
      | Inr (startup_jobs1, jobs1) \<Rightarrow> schedule_all pkg ys startup_jobs1 jobs1)"
  by (induction xs arbitrary: startup_jobs jobs) (auto split: sum.splits)

text \<open>
  Claim C2 as stated fails. A weekly job with a time and no day passes the validation
  of the configuration, and the package refuses \<^verbatim>\<open>at\<close> for it. A configuration with this
  job in front of a daily job ends the start with the error of the package, although
  the daily job alone is scheduled.
\<close>

theorem one_bad_job_aborts_startup:
  "load_jobs [plain_job ''backup'' ''weeks'' (Some ''10:30'') None,
              plain_job ''report'' ''days'' None None]
     = Inr [plain_job ''backup'' ''weeks'' (Some ''10:30'') None,
            plain_job ''report'' ''days'' None None]
   \<and> main schedule_lib [plain_job ''report'' ''days'' None None]
     = Inr \<lparr>registered =
              [\<lparr>trig = \<lparr>interval = 1, every_unit = Some ''days'', start_day = None,
                        at_time = None\<rparr>,
                todo = RunThreaded ''python scripts/report.py'' ''report''\<rparr>],
            started_threads = []\<rparr>
   \<and> main schedule_lib [plain_job ''backup'' ''weeks'' (Some ''10:30'') None,
                         plain_job ''report'' ''days'' None None]
     = Inl (OtherException ''ScheduleValueError'')"
  by code_simp

text \<open>
  Claim C2, amended. For every package and every configuration that passes the
  validation: when the jobs in front of a job have been scheduled and \<^verbatim>\<open>schedule_job\<close>
  raises for that job, the start of the program ends with this error. No job behind it
  is scheduled, no startup job is started and the loop that runs the jobs is not
  entered.
\<close>

theorem schedule_error_aborts_startup:
  assumes valid: "load_jobs (earlier @ broken # later) = Inr (earlier @ broken # later)"
    and before: "schedule_all pkg earlier [] [] = Inr (startup_jobs, jobs)"
    and bad: "schedule_job pkg broken jobs = Inl e"
  shows "main pkg (earlier @ broken # later) = Inl e"
  by (simp add: main_def valid schedule_all_append before bad)

text \<open>
  The theorem at a configuration of three valid jobs whose second is the weekly job with
  a time and no day.
\<close>

theorem schedule_error_aborts_startup_witness:
  "load_jobs [plain_job ''report'' ''days'' None None,
              plain_job ''backup'' ''weeks'' (Some ''10:30'') None,
              plain_job ''cleanup'' ''hours'' None None]
     = Inr [plain_job ''report'' ''days'' None None,
            plain_job ''backup'' ''weeks'' (Some ''10:30'') None,
            plain_job ''cleanup'' ''hours'' None None]
   \<and> schedule_all schedule_lib [plain_job ''report'' ''days'' None None] [] []
     = Inr ([], [\<lparr>trig = \<lparr>interval = 1, every_unit = Some ''days'', start_day = None,
                           at_time = None\<rparr>,
                   todo = RunThreaded ''python scripts/report.py'' ''report''\<rparr>])
   \<and> main schedule_lib [plain_job ''report'' ''days'' None None,
                         plain_job ''backup'' ''weeks'' (Some ''10:30'') None,
                         plain_job ''cleanup'' ''hours'' None None]
     = Inl (OtherException ''ScheduleValueError'')"
proof -
  have valid: "load_jobs ([plain_job ''report'' ''days'' None None]
                 @ plain_job ''backup'' ''weeks'' (Some ''10:30'') None
                 # [plain_job ''cleanup'' ''hours'' None None])
     = Inr ([plain_job ''report'' ''days'' None None]
                 @ plain_job ''backup'' ''weeks'' (Some ''10:30'') None
                 # [plain_job ''cleanup'' ''hours'' None None])"
    by code_simp
  have before: "schedule_all schedule_lib [plain_job ''report'' ''days'' None None] [] []
     = Inr ([], [\<lparr>trig = \<lparr>interval = 1, every_unit = Some ''days'', start_day = None,
                           at_time = None\<rparr>,
                   todo = RunThreaded ''python scripts/report.py'' ''report''\<rparr>])"
    by code_simp
  have bad: "schedule_job schedule_lib (plain_job ''backup'' ''weeks'' (Some ''10:30'') None)
               [\<lparr>trig = \<lparr>interval = 1, every_unit = Some ''days'', start_day = None,
                           at_time = None\<rparr>,
                   todo = RunThreaded ''python scripts/report.py'' ''report''\<rparr>]
             = Inl (OtherException ''ScheduleValueError'')"
    by code_simp
  show ?thesis
    using schedule_error_aborts_startup [OF valid before bad] valid before by simp
qed


subsection \<open>An unknown day\<close>

lemma allowed_days_lower: "list_all (\<lambda>d. lower d = d) allowed_days"
  by code_simp

lemma unknown_day_not_allowed:
  assumes "lower d \<notin> set allowed_days"
  shows "d \<notin> set allowed_days"
proof
  assume "d \<in> set allowed_days"
  then have "lower d = d"
    using allowed_days_lower by (simp add: list_all_iff)
  with \<open>d \<in> set allowed_days\<close> assms show False by simp
qed

text \<open>
  Claim C3. A configuration with a job whose day, compared without regard to case, is
  none of the seven weekdays does not pass \<^verbatim>\<open>load_jobs\<close>: the schema allows the seven
  lower-case names only. The start of the program ends with \<^verbatim>\<open>ValueError\<close>, whatever the
  package, before any job is handed to it, so no trigger is produced.
\<close>

theorem unknown_day_fails_startup:
  assumes member: "job \<in> set config"
    and day: "sched_day (schedule job) = Some d"
    and unknown: "lower d \<notin> set allowed_days"
  shows "load_jobs config = Inl (ValueError ''Invalid configuration:'')
       \<and> main pkg config = Inl (ValueError ''Invalid configuration:'')"
proof -
  have "\<not> schema_ok job"
    using day unknown_day_not_allowed [OF unknown] by (simp add: schema_ok_def)
  then have "\<not> list_all schema_ok config"
    using member by (auto simp: list_all_iff)
  then have "load_jobs config = Inl (ValueError ''Invalid configuration:'')"
    by (simp add: load_jobs_def validate_config_def)
  then show ?thesis
    by (simp add: main_def)
qed

text \<open>
  The theorem at a configuration whose second job is weekly on \<^verbatim>\<open>Funday\<close>.
\<close>

theorem unknown_day_fails_startup_witness:
  "plain_job ''weekly'' ''weeks'' None (Some ''Funday'')
     \<in> set [plain_job ''report'' ''days'' None None,
            plain_job ''weekly'' ''weeks'' None (Some ''Funday'')]
   \<and> lower ''Funday'' \<notin> set allowed_days
   \<and> main schedule_lib [plain_job ''report'' ''days'' None None,
                         plain_job ''weekly'' ''weeks'' None (Some ''Funday'')]
     = Inl (ValueError ''Invalid configuration:'')"
proof -
  have member: "plain_job ''weekly'' ''weeks'' None (Some ''Funday'')
     \<in> set [plain_job ''report'' ''days'' None None,
            plain_job ''weekly'' ''weeks'' None (Some ''Funday'')]"
    by simp
  have day: "sched_day (schedule (plain_job ''weekly'' ''weeks'' None (Some ''Funday'')))
               = Some ''Funday''"
    by (simp add: plain_job_def)
  have unknown: "lower ''Funday'' \<notin> set allowed_days"
    by code_simp
  show ?thesis
    using unknown_day_fails_startup [OF member day unknown, of schedule_lib] member unknown
    by simp
qed

text \<open>
  \<^verbatim>\<open>schedule_job\<close> by itself has no such test. Called with a weekly job whose lower-cased
  day is not an attribute of the package's job object, it logs a warning and goes on as
  for the same job with no day. The validation keeps such a job from reaching it.
\<close>

lemma schedule_job_ignores_unknown_day:
  assumes en: "enabled job \<noteq> Some False"
    and weekly: "sched_unit (schedule job) = ''weeks''"
    and d: "sched_day (schedule job) = Some day" "day \<noteq> []"
    and sched: "pkg_getattr pkg
                  (pkg_every pkg (case sched_every (schedule job) of None \<Rightarrow> 1 | Some n \<Rightarrow> n))
                  ''weeks'' = Inr sched"
    and unknown: "pkg_getattr pkg sched (lower day) = Inl AttributeError"
    and at_ok: "\<not> truthy (sched_at (schedule job)) \<or> hasattr pkg sched ''at'' = Inr True"
  shows "schedule_job pkg job jobs
           = schedule_job pkg (job\<lparr>schedule := (schedule job)\<lparr>sched_day := None\<rparr>\<rparr>) jobs"
proof -
  have en': "(case enabled job of None \<Rightarrow> True | Some b \<Rightarrow> b)"
    using en by (cases "enabled job") auto
  have h: "hasattr pkg sched (lower day) = Inr False"
    by (simp add: hasattr_def unknown)
  show ?thesis
    using at_ok
    by (auto simp: schedule_job_def en' weekly d sched h and_then_def truthy_def Let_def)
qed

end
